theory Spec2Isabelle
  imports Complex_Main
begin

section \<open>PixelPeek: answer validation and the round state\<close>

text \<open>
  The development embeds three source files of the repository:
  \<^item> \<^verbatim>\<open>lib/advancedAnswerValidator.js\<close>: \<^verbatim>\<open>levenshteinDistance\<close>,
    \<^verbatim>\<open>tokenizeAndNormalize\<close>, \<^verbatim>\<open>jaccardSimilarity\<close>, \<^verbatim>\<open>fuzzyMatchScore\<close> and
    \<^verbatim>\<open>validateAnswerAdvanced\<close>;
  \<^item> \<^verbatim>\<open>context/GameContext.jsx\<close>: \<^verbatim>\<open>initialState\<close> and \<^verbatim>\<open>gameReducer\<close>;
  \<^item> \<^verbatim>\<open>App.jsx\<close>: the constants, \<^verbatim>\<open>loadNewImage\<close>, \<^verbatim>\<open>handleGuess\<close> and
    \<^verbatim>\<open>handleGuessChange\<close> of \<^verbatim>\<open>GameBoard\<close>.

  Modelling decisions.
  \<^item> A JavaScript string is a \<^typ>\<open>string\<close>, one \<^typ>\<open>char\<close> per code unit. The case
    maps and the character classes below are the ASCII ones, so the model agrees with
    JavaScript on ASCII strings.
  \<^item> A JavaScript number that the validator computes is a \<open>js_num\<close>: an exact rational,
    an infinity, or \<open>NaN\<close>. The quotients are not rounded to doubles; the non-finite
    results of a division by zero are kept.
  \<^item> The counters of the round (\<open>score\<close>, \<open>blur\<close>, \<open>highScore\<close>) are integers,
    \<open>attempts\<close> and \<open>hintLevel\<close> are naturals: they start at naturals and are only
    incremented.
  \<^item> The remote calls are inputs of the model: the reply of the Gemini judge
    (\<open>judge_reply\<close>), the two hint generators, and the image source.
\<close>

subsection \<open>String primitives\<close>

text \<open>\<^verbatim>\<open>String.prototype.toLowerCase\<close> and \<^verbatim>\<open>toUpperCase\<close> on ASCII letters.\<close>

definition lower_char :: "char \<Rightarrow> char" where
  "lower_char c =
     (let n = (of_char c :: nat) in if 65 \<le> n \<and> n \<le> 90 then char_of (n + 32) else c)"

definition upper_char :: "char \<Rightarrow> char" where
  "upper_char c =
     (let n = (of_char c :: nat) in if 97 \<le> n \<and> n \<le> 122 then char_of (n - 32) else c)"

definition toLowerCase :: "string \<Rightarrow> string" where
  "toLowerCase s = map lower_char s"

definition toUpperCase :: "string \<Rightarrow> string" where
  "toUpperCase s = map upper_char s"

text \<open>The class \<^verbatim>\<open>\s\<close> (also what \<^verbatim>\<open>trim\<close> removes): tab, line feed, vertical tab,
  form feed, carriage return, space.\<close>

definition is_space :: "char \<Rightarrow> bool" where
  "is_space c = (let n = (of_char c :: nat) in (9 \<le> n \<and> n \<le> 13) \<or> n = 32)"

text \<open>The class \<^verbatim>\<open>\w\<close>: \<^verbatim>\<open>[A-Za-z0-9_]\<close>.\<close>

definition is_word :: "char \<Rightarrow> bool" where
  "is_word c =
     (let n = (of_char c :: nat) in
        (65 \<le> n \<and> n \<le> 90) \<or> (97 \<le> n \<and> n \<le> 122) \<or> (48 \<le> n \<and> n \<le> 57) \<or> n = 95)"

definition trim :: "string \<Rightarrow> string" where
  "trim s = rev (dropWhile is_space (rev (dropWhile is_space s)))"

fun startsWith :: "string \<Rightarrow> string \<Rightarrow> bool" where
  "startsWith s [] = True"
| "startsWith [] (y # ys) = False"
| "startsWith (x # xs) (y # ys) = (x = y \<and> startsWith xs ys)"

text \<open>\<^verbatim>\<open>s.includes(t)\<close>: \<open>t\<close> occurs in \<open>s\<close> as a contiguous substring.\<close>

fun str_includes :: "string \<Rightarrow> string \<Rightarrow> bool" where
  "str_includes [] t = (t = [])"
| "str_includes (x # xs) t = (startsWith (x # xs) t \<or> str_includes xs t)"

text \<open>\<^verbatim>\<open>s.split(/\s+/)\<close>: the pieces between the maximal runs of whitespace; a run
  at either end leaves an empty piece there, and the empty string gives one empty piece.\<close>

function split_ws :: "string \<Rightarrow> string list" where
  "split_ws [] = [[]]"
| "split_ws (c # cs) =
     (if is_space c then [] # split_ws (dropWhile is_space cs)
      else (case split_ws cs of
              [] \<Rightarrow> [[c]]
            | t # ts \<Rightarrow> (c # t) # ts))"
  by pat_completeness auto
termination
  by (relation "measure length") (auto simp: le_imp_less_Suc length_dropWhile_le)

text \<open>Decimal rendering of an integer, for the template strings.\<close>

function show_nat :: "nat \<Rightarrow> string" where
  "show_nat n =
     (if n < 10 then [char_of (48 + n)] else show_nat (n div 10) @ [char_of (48 + n mod 10)])"
  by pat_completeness auto
termination
  by (relation "measure id") auto

declare show_nat.simps [simp del]

definition show_int :: "int \<Rightarrow> string" where
  "show_int i = (if i < 0 then CHR ''-'' # show_nat (nat (- i)) else show_nat (nat i))"

subsection \<open>Numbers of the validator\<close>

datatype js_num = Num rat | PosInf | NegInf | NaN

text \<open>\<^verbatim>\<open>a / b\<close> on two sizes or lengths (non-negative integers).\<close>

definition js_div :: "nat \<Rightarrow> nat \<Rightarrow> js_num" where
  "js_div a b =
     (if b = 0 then (if a = 0 then NaN else PosInf) else Num (of_nat a / of_nat b))"

text \<open>\<^verbatim>\<open>1 - x\<close>.\<close>

fun js_one_minus :: "js_num \<Rightarrow> js_num" where
  "js_one_minus (Num q) = Num (1 - q)"
| "js_one_minus PosInf = NegInf"
| "js_one_minus NegInf = PosInf"
| "js_one_minus NaN = NaN"

text \<open>\<^verbatim>\<open>x >= t\<close> for a finite threshold \<open>t\<close>: false on \<open>NaN\<close>.\<close>

fun js_ge :: "js_num \<Rightarrow> rat \<Rightarrow> bool" where
  "js_ge (Num q) t = (t \<le> q)"
| "js_ge PosInf t = True"
| "js_ge NegInf t = False"
| "js_ge NaN t = False"

text \<open>\<^verbatim>\<open>Math.max(x, y)\<close>: \<open>NaN\<close> as soon as one argument is.\<close>

fun Math_max :: "js_num \<Rightarrow> js_num \<Rightarrow> js_num" where
  "Math_max NaN y = NaN"
| "Math_max x NaN = NaN"
| "Math_max PosInf y = PosInf"
| "Math_max x PosInf = PosInf"
| "Math_max NegInf y = y"
| "Math_max x NegInf = x"
| "Math_max (Num a) (Num b) = Num (max a b)"

subsection \<open>The similarity primitives\<close>

text \<open>
  \<^verbatim>\<open>levenshteinDistance\<close> fills a matrix of \<open>len2 + 1\<close> rows of \<open>len1 + 1\<close> zeros:
  first row 0 and column 0, then the rows \<open>1..len2\<close> from left to right. Every index
  the loops use is inside the matrix. The second argument of the minimum reads the cell
  that is being written, \<^verbatim>\<open>matrix[j][i] + 1\<close>, as the source does.
\<close>

type_synonym matrix = "nat list list"

definition new_matrix :: "nat \<Rightarrow> nat \<Rightarrow> matrix" where
  "new_matrix len1 len2 = replicate (len2 + 1) (replicate (len1 + 1) 0)"

definition cell :: "matrix \<Rightarrow> nat \<Rightarrow> nat \<Rightarrow> nat" where
  "cell m j i = m ! j ! i"

definition set_cell :: "matrix \<Rightarrow> nat \<Rightarrow> nat \<Rightarrow> nat \<Rightarrow> matrix" where
  "set_cell m j i v = m[j := (m ! j)[i := v]]"

definition lev_cell :: "string \<Rightarrow> string \<Rightarrow> nat \<Rightarrow> nat \<Rightarrow> matrix \<Rightarrow> matrix" where
  "lev_cell str1 str2 j i m =
     (let indicator = (if str1 ! (i - 1) = str2 ! (j - 1) then 0 else 1)
      in set_cell m j i
           (min (min (cell m j (i - 1) + 1) (cell m j i + 1))
                (cell m (j - 1) (i - 1) + indicator)))"

definition lev_row :: "string \<Rightarrow> string \<Rightarrow> nat \<Rightarrow> matrix \<Rightarrow> matrix" where
  "lev_row str1 str2 j m = fold (lev_cell str1 str2 j) [1 ..< length str1 + 1] m"

definition levenshteinDistance :: "string \<Rightarrow> string \<Rightarrow> nat" where
  "levenshteinDistance str1 str2 =
     (let len1 = length str1;
          len2 = length str2;
          m0 = new_matrix len1 len2;
          m1 = fold (\<lambda>i m. set_cell m 0 i i) [0 ..< len1 + 1] m0;
          m2 = fold (\<lambda>j m. set_cell m j 0 j) [0 ..< len2 + 1] m1;
          m3 = fold (lev_row str1 str2) [1 ..< len2 + 1] m2
      in cell m3 len2 len1)"

text \<open>\<^verbatim>\<open>tokenizeAndNormalize\<close>: lower-case, delete what is neither \<^verbatim>\<open>\w\<close> nor
  \<^verbatim>\<open>\s\<close>, split at whitespace, drop the empty pieces.\<close>

definition tokenizeAndNormalize :: "string \<Rightarrow> string list" where
  "tokenizeAndNormalize text =
     filter (\<lambda>t. length t > 0)
       (split_ws (filter (\<lambda>c. is_word c \<or> is_space c) (toLowerCase text)))"

text \<open>\<^verbatim>\<open>jaccardSimilarity\<close>. A \<^verbatim>\<open>Set\<close> built from a list is the list without its
  duplicates; only membership and size are used.\<close>

definition jaccardSimilarity :: "string list \<Rightarrow> string list \<Rightarrow> js_num" where
  "jaccardSimilarity tokens1 tokens2 =
     (let set1 = remdups tokens1;
          set2 = remdups tokens2;
          intersection = remdups (filter (\<lambda>x. x \<in> set set2) set1);
          union = remdups (set1 @ set2)
      in js_div (length intersection) (length union))"

definition fuzzyMatchScore :: "string \<Rightarrow> string \<Rightarrow> js_num" where
  "fuzzyMatchScore g answer =
     (let maxLen = max (length g) (length answer)
      in if maxLen = 0 then Num 1
         else js_one_minus (js_div (levenshteinDistance g answer) maxLen))"

subsection \<open>The match engine\<close>

text \<open>The object \<^verbatim>\<open>validateAnswerAdvanced\<close> returns. Its field \<^verbatim>\<open>score\<close> (a rounded
  percentage that the caller only logs) is left out.\<close>

record verdict =
  isValid :: bool
  confidence :: js_num
  reasoning :: string
  strategy :: string

text \<open>
  What the request to the judge comes to. \<open>JudgeFailed\<close>: the request throws, the
  response is not \<^verbatim>\<open>ok\<close>, or its text does not parse to an object.
  \<open>JudgeResult v c r\<close>: the parsed object, with \<^verbatim>\<open>isValid\<close> \<open>v\<close>, and \<^verbatim>\<open>confidence\<close>
  and \<^verbatim>\<open>reasoning\<close> present or not.
\<close>

datatype judge_reply = JudgeFailed | JudgeResult bool "rat option" "string option"

text \<open>\<^verbatim>\<open>x || d\<close> on an optional number and on an optional string.\<close>

definition num_or :: "rat option \<Rightarrow> rat \<Rightarrow> rat" where
  "num_or x d = (case x of None \<Rightarrow> d | Some q \<Rightarrow> if q = 0 then d else q)"

definition str_or :: "string option \<Rightarrow> string \<Rightarrow> string" where
  "str_or x d = (case x of None \<Rightarrow> d | Some t \<Rightarrow> if t = [] then d else t)"

definition validateAnswerAdvanced ::
  "string \<Rightarrow> string \<Rightarrow> string \<Rightarrow> judge_reply \<Rightarrow> verdict" where
  "validateAnswerAdvanced userGuess correctAnswer imageDescription reply =
     (let normalizedGuess = trim (toLowerCase userGuess);
          normalizedAnswer = trim (toLowerCase correctAnswer)
      in
      if length normalizedGuess = 0 then
        \<lparr>isValid = False, confidence = Num 0, reasoning = ''Empty guess'',
         strategy = ''EMPTY''\<rparr>
      else if normalizedGuess = normalizedAnswer then
        \<lparr>isValid = True, confidence = Num 1, reasoning = ''Exact match'',
         strategy = ''EXACT''\<rparr>
      else
      let matchRatio =
            js_div (min (length normalizedGuess) (length normalizedAnswer))
                   (max (length normalizedGuess) (length normalizedAnswer))
      in
      if (str_includes normalizedGuess normalizedAnswer \<or>
          str_includes normalizedAnswer normalizedGuess) \<and> js_ge matchRatio (7 / 10) then
        \<lparr>isValid = True, confidence = matchRatio, reasoning = ''Strong substring match'',
         strategy = ''SUBSTRING''\<rparr>
      else
      let fuzzyScore = fuzzyMatchScore normalizedGuess normalizedAnswer
      in
      if js_ge fuzzyScore (95 / 100) then
        \<lparr>isValid = True, confidence = fuzzyScore, reasoning = ''High fuzzy match score'',
         strategy = ''FUZZY''\<rparr>
      else
      let guessTokens = tokenizeAndNormalize normalizedGuess;
          answerTokens = tokenizeAndNormalize normalizedAnswer;
          jaccardScore = jaccardSimilarity guessTokens answerTokens;
          tokenCountMatch =
            js_div (min (length guessTokens) (length answerTokens))
                   (max (length guessTokens) (length answerTokens))
      in
      if js_ge jaccardScore (95 / 100) \<and> js_ge tokenCountMatch (6 / 10) then
        \<lparr>isValid = True, confidence = jaccardScore,
         reasoning = ''Exact word overlap match'', strategy = ''JACCARD''\<rparr>
      else
      (case reply of
         JudgeResult True c r \<Rightarrow>
           if num_or c 0 \<ge> 85 / 100 then
             \<lparr>isValid = True, confidence = Num (num_or c (1 / 2)),
              reasoning = str_or r ''Gemini validation'', strategy = ''GEMINI_SEMANTIC''\<rparr>
           else
             \<lparr>isValid = False, confidence = Math_max fuzzyScore jaccardScore,
              reasoning = ''Guess does not match answer'', strategy = ''REJECTED''\<rparr>
       | _ \<Rightarrow>
           \<lparr>isValid = False, confidence = Math_max fuzzyScore jaccardScore,
            reasoning = ''Guess does not match answer'', strategy = ''REJECTED''\<rparr>))"

subsection \<open>The game state and its reducer\<close>

record game_state =
  imageUrl :: string
  desc :: string
  label :: string
  guess :: string
  score :: int
  attempts :: nat
  revealed :: bool
  loading :: bool
  blur :: int
  hint :: string
  hintLevel :: nat
  previousHints :: "string list"
  highScore :: int

datatype game_action =
    SET_IMAGE string
  | SET_LOADING bool
  | SET_GUESS string
  | SET_BLUR int
  | SET_HINT string
  | SET_HINT_LEVEL nat
  | ADD_PREVIOUS_HINT string
  | INCREMENT_ATTEMPTS
  | DECREMENT_SCORE int
  | SET_SCORE int
  | REVEAL_ANSWER
  | SET_HIGH_SCORE int
  | RESET_GAME
  | SET_LABEL string
  | SET_DESC string
  | SET_PREVIOUS_HINTS "string list"

definition initialState :: game_state where
  "initialState =
     \<lparr>imageUrl = [], desc = [], label = [], guess = [], score = 100, attempts = 0,
      revealed = False, loading = True, blur = 20, hint = ''Analyzing data...'',
      hintLevel = 0, previousHints = [], highScore = 0\<rparr>"

fun gameReducer :: "game_state \<Rightarrow> game_action \<Rightarrow> game_state" where
  "gameReducer state (SET_IMAGE payload) = state\<lparr>imageUrl := payload\<rparr>"
| "gameReducer state (SET_LOADING payload) = state\<lparr>loading := payload\<rparr>"
| "gameReducer state (SET_GUESS payload) = state\<lparr>guess := payload\<rparr>"
| "gameReducer state (SET_BLUR payload) = state\<lparr>blur := payload\<rparr>"
| "gameReducer state (SET_HINT payload) = state\<lparr>hint := payload\<rparr>"
| "gameReducer state (SET_HINT_LEVEL payload) = state\<lparr>hintLevel := min payload 4\<rparr>"
| "gameReducer state (ADD_PREVIOUS_HINT payload) =
     state\<lparr>previousHints := previousHints state @ [payload]\<rparr>"
| "gameReducer state INCREMENT_ATTEMPTS = state\<lparr>attempts := attempts state + 1\<rparr>"
| "gameReducer state (DECREMENT_SCORE payload) =
     state\<lparr>score := max 0 (score state - payload)\<rparr>"
| "gameReducer state (SET_SCORE payload) = state\<lparr>score := payload\<rparr>"
| "gameReducer state REVEAL_ANSWER = state\<lparr>revealed := True, blur := 0\<rparr>"
| "gameReducer state (SET_HIGH_SCORE payload) = state\<lparr>highScore := payload\<rparr>"
| "gameReducer state (SET_LABEL payload) = state\<lparr>label := payload\<rparr>"
| "gameReducer state (SET_DESC payload) = state\<lparr>desc := payload\<rparr>"
| "gameReducer state (SET_PREVIOUS_HINTS payload) = state\<lparr>previousHints := payload\<rparr>"
| "gameReducer state RESET_GAME =
     \<lparr>imageUrl = [], desc = [], label = [], guess = [], score = 100, attempts = 0,
      revealed = False, loading = True, blur = 20, hint = ''Analyzing data...'',
      hintLevel = 0, previousHints = [], highScore = highScore state\<rparr>"

text \<open>A handler dispatches its actions one after the other; the store applies each to
  the state the previous one left.\<close>

definition dispatch_all :: "game_state \<Rightarrow> game_action list \<Rightarrow> game_state" where
  "dispatch_all store acts = foldl gameReducer store acts"

subsection \<open>The handlers of the game board\<close>

definition MAX_ATTEMPTS :: nat where "MAX_ATTEMPTS = 5"
definition BLUR_DECREMENT :: int where "BLUR_DECREMENT = 4"
definition INITIAL_BLUR :: int where "INITIAL_BLUR = 20"
definition SCORE_DECREMENT :: int where "SCORE_DECREMENT = 15"

text \<open>
  \<^verbatim>\<open>loadNewImage\<close>. \<open>ImageData url description\<close> is what the image source returned,
  \<open>ImageFailed\<close> a fetch that threw after its retries. \<open>firstHint\<close> is the result of
  \<^verbatim>\<open>generateHintFromAI\<close>, \<open>None\<close> when it threw.
\<close>

datatype image_result = ImageFailed | ImageData string string

definition loadNewImage_dispatches :: "image_result \<Rightarrow> string option \<Rightarrow> game_action list" where
  "loadNewImage_dispatches imageData firstHint =
     (case imageData of
        ImageData url description \<Rightarrow>
          [RESET_GAME,
           SET_IMAGE url,
           SET_DESC description,
           SET_LABEL description,
           SET_HINT ''> Scanning image...'',
           (case firstHint of
              Some h \<Rightarrow> SET_HINT (''> '' @ h)
            | None \<Rightarrow> SET_HINT ''> Image loaded. Begin guessing...''),
           SET_LOADING False]
      | ImageFailed \<Rightarrow>
          [RESET_GAME, SET_HINT ''> ERROR: Unable to load'', SET_LOADING False])"

definition loadNewImage :: "game_state \<Rightarrow> image_result \<Rightarrow> string option \<Rightarrow> game_state" where
  "loadNewImage store imageData firstHint =
     dispatch_all store (loadNewImage_dispatches imageData firstHint)"

definition handleGuessChange :: "game_state \<Rightarrow> string \<Rightarrow> game_state" where
  "handleGuessChange store v = gameReducer store (SET_GUESS v)"

text \<open>
  \<^verbatim>\<open>handleGuess\<close> closes over the \<open>state\<close> of the render that created it: the guard and
  every payload read that snapshot, while each dispatch acts on the store. The handler
  runs in two parts, separated by the wait for the validator.

  \<open>handleGuess_begin\<close> is the part before the wait: the guard, and the first dispatch.
  It returns the store and, when the guard lets the submission through, the snapshot.

  \<open>handleGuess_dispatches\<close> lists what the handler dispatches once the verdict is there.
  \<open>ctxHint\<close> is the string \<^verbatim>\<open>generateContextualHint\<close> returned (it catches its own
  failures), \<open>aiHint\<close> the result of \<^verbatim>\<open>generateHintFromAI\<close>, \<open>None\<close> when it threw.
  The validator of this model throws nothing, so the handler's outer \<^verbatim>\<open>catch\<close> has no
  branch here. The calls to the analytics service and to the console change no state
  and are left out.
\<close>

definition handleGuess_begin :: "game_state \<Rightarrow> game_state \<times> game_state option" where
  "handleGuess_begin state =
     (if revealed state \<or> loading state then (state, None)
      else (gameReducer state (SET_HINT ''> Validating answer...''), Some state))"

definition handleGuess_dispatches ::
  "game_state \<Rightarrow> verdict \<Rightarrow> string \<Rightarrow> string option \<Rightarrow> game_action list" where
  "handleGuess_dispatches state validation ctxHint aiHint =
     (if isValid validation then
        [REVEAL_ANSWER,
         SET_HINT (''> CORRECT! ('' @ strategy validation @ '') - Score: '' @
                   show_int (score state))]
        @ (if score state > highScore state then [SET_HIGH_SCORE (score state)] else [])
      else
        (let newAttempts = attempts state + 1;
             newBlur = max 0 (blur state - BLUR_DECREMENT)
         in [INCREMENT_ATTEMPTS, DECREMENT_SCORE SCORE_DECREMENT, SET_BLUR newBlur]
            @ (if newAttempts \<ge> MAX_ATTEMPTS then
                 [REVEAL_ANSWER,
                  SET_SCORE 0,
                  SET_HINT (''> GAME OVER (5 attempts). Answer: '' @
                            toUpperCase (label state))]
               else
                 (let lvl = hintLevel state + 1;
                      nextHint = (if length ctxHint < 5 then aiHint else Some ctxHint)
                  in [SET_HINT ''> Analyzing your guess...'',
                      (case nextHint of
                         Some h \<Rightarrow> SET_HINT (''> '' @ h)
                       | None \<Rightarrow> SET_HINT ''> Try another guess...''),
                      SET_HINT_LEVEL lvl,
                      ADD_PREVIOUS_HINT (hint state)]))))
     @ [SET_GUESS []]"

text \<open>The part after the wait: \<open>snapshot\<close> is the state the handler closed over,
  \<open>store\<close> the state of the store when the verdict arrives.\<close>

definition handleGuess_resume ::
  "game_state \<Rightarrow> judge_reply \<Rightarrow> string \<Rightarrow> string option \<Rightarrow> game_state \<Rightarrow> game_state" where
  "handleGuess_resume snapshot reply ctxHint aiHint store =
     dispatch_all store
       (handleGuess_dispatches snapshot
          (validateAnswerAdvanced (guess snapshot) (label snapshot) (desc snapshot) reply)
          ctxHint aiHint)"

text \<open>One guess submission processed on its own, from the guard to the last dispatch.\<close>

definition handleGuess ::
  "game_state \<Rightarrow> judge_reply \<Rightarrow> string \<Rightarrow> string option \<Rightarrow> game_state" where
  "handleGuess state reply ctxHint aiHint =
     (case handleGuess_begin state of
        (store, None) \<Rightarrow> store
      | (store, Some snapshot) \<Rightarrow> handleGuess_resume snapshot reply ctxHint aiHint store)"

subsection \<open>A round\<close>

text \<open>
  The player types a guess and submits it; the environment supplies the judge's reply
  and the two hints. \<open>play\<close> is that pair of handler calls.
\<close>

datatype submission = Submission string judge_reply string "string option"

fun play :: "game_state \<Rightarrow> submission \<Rightarrow> game_state" where
  "play state (Submission g reply ctxHint aiHint) =
     handleGuess (handleGuessChange state g) reply ctxHint aiHint"

text \<open>The round is in its \<open>ACTIVE\<close> state: loaded and not revealed.\<close>

definition active :: "game_state \<Rightarrow> bool" where
  "active state = (\<not> revealed state \<and> \<not> loading state)"

text \<open>The verdict of the match engine on a submission, in a given state.\<close>

fun verdict_of :: "game_state \<Rightarrow> submission \<Rightarrow> verdict" where
  "verdict_of state (Submission g reply ctxHint aiHint) =
     validateAnswerAdvanced g (label state) (desc state) reply"

text \<open>The submission is evaluated and accepted.\<close>

definition accepted :: "game_state \<Rightarrow> submission \<Rightarrow> bool" where
  "accepted state sub = (active state \<and> isValid (verdict_of state sub))"

text \<open>
  The states of one round: those reached from a round that \<^verbatim>\<open>loadNewImage\<close> has just
  set up, by guess submissions. The flag records whether a guess was accepted on the way.
\<close>

inductive round_reach :: "game_state \<Rightarrow> bool \<Rightarrow> bool" where
  loaded: "round_reach (loadNewImage store imageData firstHint) False"
| played: "round_reach state acc \<Longrightarrow> round_reach (play state sub) (acc \<or> accepted state sub)"

subsection \<open>Notions used in the statements and proofs\<close>

text \<open>A number of the closed interval from 0 to 1.\<close>

definition unit_interval :: "js_num \<Rightarrow> bool" where
  "unit_interval x =
     (case x of Num q \<Rightarrow> 0 \<le> q \<and> q \<le> 1 | PosInf \<Rightarrow> False | NegInf \<Rightarrow> False | NaN \<Rightarrow> False)"

text \<open>The matrix has the shape \<^verbatim>\<open>levenshteinDistance\<close> allocated.\<close>

definition well_shaped :: "nat \<Rightarrow> nat \<Rightarrow> matrix \<Rightarrow> bool" where
  "well_shaped len1 len2 m =
     (length m = len2 + 1 \<and> list_all (\<lambda>row. length row = len1 + 1) m)"

text \<open>The last cell of the matrix still holds the 0 it was allocated with.\<close>

definition corner_untouched :: "nat \<Rightarrow> nat \<Rightarrow> matrix \<Rightarrow> bool" where
  "corner_untouched len1 len2 m = (well_shaped len1 len2 m \<and> cell m len2 len1 = 0)"

text \<open>A round as \<^verbatim>\<open>loadNewImage\<close> sets it up on the first load, for the description
  \<^verbatim>\<open>lighthouse\<close>.\<close>

definition lighthouse_round :: game_state where
  "lighthouse_round =
     loadNewImage initialState (ImageData ''lighthouse.jpg'' ''lighthouse'')
       (Some ''It guides ships'')"

text \<open>Two submissions for that round, with the judge unreachable: a wrong guess, and
  the answer with a capital letter.\<close>

definition boat_guess :: submission where
  "boat_guess = Submission ''boat'' JudgeFailed ''Getting closer to the answer...'' None"

definition lighthouse_guess :: submission where
  "lighthouse_guess =
     Submission ''Lighthouse'' JudgeFailed ''Getting closer to the answer...'' None"

text \<open>That round after four wrong guesses, with a fifth guess typed in.\<close>

definition last_attempt_round :: game_state where
  "last_attempt_round =
     handleGuessChange (foldl play lighthouse_round (replicate 4 boat_guess)) ''boat''"

section \<open>Supporting lemmas\<close>

subsection \<open>Strings\<close>

lemma trim_Nil_iff: "trim s = [] \<longleftrightarrow> (\<forall>c\<in>set s. is_space c)"
proof
  assume "trim s = []"
  then have all: "\<forall>c\<in>set (dropWhile is_space s). is_space c"
    by (simp add: trim_def)
  have "dropWhile is_space s = []"
  proof (rule ccontr)
    assume ne: "dropWhile is_space s \<noteq> []"
    then have "\<not> is_space (hd (dropWhile is_space s))" by (rule hd_dropWhile)
    moreover have "hd (dropWhile is_space s) \<in> set (dropWhile is_space s)"
      using ne by simp
    ultimately show False using all by blast
  qed
  then show "\<forall>c\<in>set s. is_space c" by simp
next
  assume "\<forall>c\<in>set s. is_space c"
  then show "trim s = []" by (auto simp: trim_def dest: set_dropWhileD)
qed

lemma is_space_lower_char: "is_space (lower_char c) = is_space c"
proof -
  have "of_char (char_of (of_char c + (32::nat))) = (of_char c + 32 :: nat)"
    if "(65::nat) \<le> of_char c" "of_char c \<le> (90::nat)"
    using that by (simp add: of_char_of)
  then show ?thesis
    by (auto simp: is_space_def lower_char_def Let_def)
qed

lemma trim_toLowerCase_Nil_iff: "trim (toLowerCase s) = [] \<longleftrightarrow> trim s = []"
  by (simp add: trim_Nil_iff toLowerCase_def is_space_lower_char)

subsection \<open>The matrix of the edit distance\<close>

lemma well_shaped_new_matrix: "well_shaped len1 len2 (new_matrix len1 len2)"
  by (simp add: well_shaped_def new_matrix_def list_all_iff)

lemma well_shaped_row: "well_shaped len1 len2 m \<Longrightarrow> j \<le> len2 \<Longrightarrow> length (m ! j) = len1 + 1"
  by (simp add: well_shaped_def list_all_length)

lemma well_shaped_set_cell:
  "well_shaped len1 len2 m \<Longrightarrow> well_shaped len1 len2 (set_cell m j i v)"
  by (cases "j < length m")
     (auto simp: well_shaped_def set_cell_def list_all_length nth_list_update)

lemma cell_set_cell_same:
  "well_shaped len1 len2 m \<Longrightarrow> j \<le> len2 \<Longrightarrow> i \<le> len1 \<Longrightarrow> cell (set_cell m j i v) j i = v"
  by (simp add: cell_def set_cell_def well_shaped_def list_all_length)

lemma cell_set_cell_other:
  "(j', i') \<noteq> (j, i) \<Longrightarrow> cell (set_cell m j i v) j' i' = cell m j' i'"
  by (cases "j < length m"; cases "j' = j")
     (auto simp: cell_def set_cell_def nth_list_update list_update_beyond)

lemma fold_invariant:
  "P m \<Longrightarrow> (\<And>x m. x \<in> set xs \<Longrightarrow> P m \<Longrightarrow> P (f x m)) \<Longrightarrow> P (fold f xs m)"
  by (induction xs arbitrary: m) auto

lemma corner_untouched_set_cell:
  "corner_untouched len1 len2 m \<Longrightarrow> (j, i) \<noteq> (len2, len1) \<Longrightarrow>
   corner_untouched len1 len2 (set_cell m j i v)"
  by (auto simp: corner_untouched_def well_shaped_set_cell cell_set_cell_other)

lemma corner_untouched_lev_cell:
  "corner_untouched len1 len2 m \<Longrightarrow> (j, i) \<noteq> (len2, len1) \<Longrightarrow>
   corner_untouched len1 len2 (lev_cell str1 str2 j i m)"
  unfolding lev_cell_def Let_def by (rule corner_untouched_set_cell)

lemma lev_cell_corner_le_1:
  assumes "corner_untouched len1 len2 m"
  shows "cell (lev_cell str1 str2 len2 len1 m) len2 len1 \<le> 1"
proof -
  from assms have ws: "well_shaped len1 len2 m" and z: "cell m len2 len1 = 0"
    by (simp_all add: corner_untouched_def)
  show ?thesis
    unfolding lev_cell_def Let_def
    by (simp add: cell_set_cell_same [OF ws] z)
qed

text \<open>Both strings non-empty: the last cell written is the result, and it is at most 1.\<close>

lemma levenshteinDistance_le_1:
  assumes "str1 \<noteq> []" and "str2 \<noteq> []"
  shows "levenshteinDistance str1 str2 \<le> 1"
proof -
  define len1 where "len1 = length str1"
  define len2 where "len2 = length str2"
  have pos: "1 \<le> len1" "1 \<le> len2"
    using assms by (simp_all add: len1_def len2_def Suc_leI)
  define m1 where "m1 = fold (\<lambda>i m. set_cell m 0 i i) [0 ..< len1 + 1] (new_matrix len1 len2)"
  define m2 where "m2 = fold (\<lambda>j m. set_cell m j 0 j) [0 ..< len2 + 1] m1"
  define m3 where "m3 = fold (lev_row str1 str2) [1 ..< len2] m2"
  define m4 where "m4 = fold (lev_cell str1 str2 len2) [1 ..< len1] m3"
  have c0: "corner_untouched len1 len2 (new_matrix len1 len2)"
    by (simp add: corner_untouched_def well_shaped_new_matrix)
       (simp add: cell_def new_matrix_def del: replicate.simps)
  have c1: "corner_untouched len1 len2 m1"
    unfolding m1_def using pos
    by (intro fold_invariant [where P = "corner_untouched len1 len2"] c0
          corner_untouched_set_cell) auto
  have c2: "corner_untouched len1 len2 m2"
    unfolding m2_def using pos
    by (intro fold_invariant [where P = "corner_untouched len1 len2"] c1
          corner_untouched_set_cell) auto
  have row: "corner_untouched len1 len2 (lev_row str1 str2 j m)"
    if "corner_untouched len1 len2 m" and "j < len2" for j m
    unfolding lev_row_def using that
    by (intro fold_invariant [where P = "corner_untouched len1 len2"]
          corner_untouched_lev_cell) auto
  have c3: "corner_untouched len1 len2 m3"
    unfolding m3_def
    by (intro fold_invariant [where P = "corner_untouched len1 len2"] c2 row) auto
  have c4: "corner_untouched len1 len2 m4"
    unfolding m4_def
    by (intro fold_invariant [where P = "corner_untouched len1 len2"] c3
          corner_untouched_lev_cell) auto
  have split1: "[1 ..< len1 + 1] = [1 ..< len1] @ [len1]"
    using pos by (simp add: upt_Suc_append)
  have split2: "[1 ..< len2 + 1] = [1 ..< len2] @ [len2]"
    using pos by (simp add: upt_Suc_append)
  have "levenshteinDistance str1 str2 =
        cell (fold (lev_row str1 str2) [1 ..< len2 + 1] m2) len2 len1"
    by (simp add: levenshteinDistance_def Let_def m2_def m1_def len1_def len2_def)
  also have "\<dots> = cell (lev_row str1 str2 len2 m3) len2 len1"
    by (simp only: split2 fold_append m3_def comp_def fold_simps)
  also have "lev_row str1 str2 len2 m3 = lev_cell str1 str2 len2 len1 m4"
    unfolding lev_row_def len1_def [symmetric]
    by (simp only: split1 fold_append m4_def comp_def fold_simps)
  finally show ?thesis
    using lev_cell_corner_le_1 [OF c4] by simp
qed

lemma fold_lev_row_Nil: "fold (lev_row [] str2) js m = m"
  by (induction js) (simp_all add: lev_row_def)

lemma fold_upt_last: "fold f [0 ..< n + 1] m = f n (fold f [0 ..< n] m)"
  by simp

lemma levenshteinDistance_Nil_left: "levenshteinDistance [] str2 = length str2"
proof -
  define len2 where "len2 = length str2"
  define m1 where "m1 = fold (\<lambda>i m. set_cell m 0 i i) [0 ..< 0 + 1] (new_matrix 0 len2)"
  have w1: "well_shaped 0 len2 m1"
    unfolding m1_def
    by (intro fold_invariant [where P = "well_shaped 0 len2"] well_shaped_set_cell
          well_shaped_new_matrix)
  define m2 where "m2 = fold (\<lambda>j m. set_cell m j 0 j) [0 ..< len2] m1"
  have w2: "well_shaped 0 len2 m2"
    unfolding m2_def
    by (intro fold_invariant [where P = "well_shaped 0 len2"] w1 well_shaped_set_cell)
  have "levenshteinDistance [] str2 =
        cell (fold (lev_row [] str2) [1 ..< len2 + 1]
               (fold (\<lambda>j m. set_cell m j 0 j) [0 ..< len2 + 1] m1)) len2 0"
    unfolding levenshteinDistance_def Let_def m1_def len2_def by simp
  also have "\<dots> = cell (set_cell m2 len2 0 len2) len2 0"
    by (simp only: fold_lev_row_Nil fold_upt_last m2_def)
  also have "\<dots> = len2"
    by (rule cell_set_cell_same [OF w2]) simp_all
  finally show ?thesis by (simp add: len2_def)
qed

lemma levenshteinDistance_Nil_right: "levenshteinDistance str1 [] = length str1"
proof (cases "str1 = []")
  case True
  then show ?thesis by (simp add: levenshteinDistance_Nil_left)
next
  case False
  define len1 where "len1 = length str1"
  have pos: "1 \<le> len1" using False by (simp add: len1_def Suc_leI)
  define m0 where "m0 = fold (\<lambda>i m. set_cell m 0 i i) [0 ..< len1] (new_matrix len1 0)"
  have w0: "well_shaped len1 0 m0"
    unfolding m0_def
    by (intro fold_invariant [where P = "well_shaped len1 0"] well_shaped_new_matrix
          well_shaped_set_cell)
  have "levenshteinDistance str1 [] =
        cell (set_cell (set_cell m0 0 len1 len1) 0 0 0) 0 len1"
    by (simp add: levenshteinDistance_def Let_def m0_def len1_def)
  also have "\<dots> = cell (set_cell m0 0 len1 len1) 0 len1"
    using pos by (intro cell_set_cell_other) auto
  also have "\<dots> = len1"
    by (rule cell_set_cell_same [OF w0]) simp_all
  finally show ?thesis by (simp add: len1_def)
qed

lemma levenshteinDistance_le_max:
  "levenshteinDistance str1 str2 \<le> max (length str1) (length str2)"
proof (cases "str1 = [] \<or> str2 = []")
  case True
  then show ?thesis
    by (auto simp: levenshteinDistance_Nil_left levenshteinDistance_Nil_right)
next
  case False
  then have "levenshteinDistance str1 str2 \<le> 1"
    using levenshteinDistance_le_1 [of str1 str2] by simp
  moreover have "1 \<le> length str1" using False by (simp add: Suc_leI)
  ultimately show ?thesis by simp
qed

subsection \<open>The scores and the cascade\<close>

lemma unit_interval_Num [simp]: "unit_interval (Num q) \<longleftrightarrow> 0 \<le> q \<and> q \<le> 1"
  by (simp add: unit_interval_def)

lemma unit_interval_NaN [simp]: "\<not> unit_interval NaN"
  by (simp add: unit_interval_def)

lemma js_div_unit_interval: "b \<noteq> 0 \<Longrightarrow> a \<le> b \<Longrightarrow> unit_interval (js_div a b)"
  by (simp add: js_div_def divide_le_eq)

lemma one_minus_js_div_unit_interval:
  "b \<noteq> 0 \<Longrightarrow> a \<le> b \<Longrightarrow> unit_interval (js_one_minus (js_div a b))"
  by (simp add: js_div_def divide_le_eq)

lemma fuzzyMatchScore_unit_interval: "unit_interval (fuzzyMatchScore g a)"
proof (cases "max (length g) (length a) = 0")
  case True
  then show ?thesis by (simp add: fuzzyMatchScore_def)
next
  case False
  then have "unit_interval
      (js_one_minus (js_div (levenshteinDistance g a) (max (length g) (length a))))"
    by (intro one_minus_js_div_unit_interval levenshteinDistance_le_max)
  with False show ?thesis by (simp add: fuzzyMatchScore_def Let_def)
qed

lemma jaccardSimilarity_unit_interval:
  assumes "tokens1 \<noteq> [] \<or> tokens2 \<noteq> []"
  shows "unit_interval (jaccardSimilarity tokens1 tokens2)"
proof -
  have ne: "length (remdups (remdups tokens1 @ remdups tokens2)) \<noteq> 0"
    using assms by auto
  have "length (remdups (filter (\<lambda>x. x \<in> set (remdups tokens2)) (remdups tokens1)))
        = card (set tokens1 \<inter> set tokens2)"
    by (simp add: length_remdups_card_conv Int_def conj_commute)
  also have "\<dots> \<le> card (set tokens1 \<union> set tokens2)"
    by (intro card_mono) auto
  also have "\<dots> = length (remdups (remdups tokens1 @ remdups tokens2))"
    by (simp add: length_remdups_card_conv)
  finally show ?thesis
    unfolding jaccardSimilarity_def Let_def using ne by (intro js_div_unit_interval)
qed

lemma jaccardSimilarity_Nil: "jaccardSimilarity [] [] = NaN"
  by (simp add: jaccardSimilarity_def js_div_def)

lemma jaccardSimilarity_NaN_or_unit:
  "jaccardSimilarity t1 t2 = NaN \<or> unit_interval (jaccardSimilarity t1 t2)"
proof (cases "t1 = [] \<and> t2 = []")
  case True
  then show ?thesis by (simp add: jaccardSimilarity_Nil)
next
  case False
  then show ?thesis by (simp add: jaccardSimilarity_unit_interval)
qed

lemma Math_max_unit_interval:
  "unit_interval x \<Longrightarrow> unit_interval y \<Longrightarrow> unit_interval (Math_max x y)"
  by (cases x; cases y) (auto simp: unit_interval_def)

lemma js_ge_Num: "js_ge x t \<Longrightarrow> x \<noteq> NaN"
  by (cases x) auto

text \<open>The cascade of \<open>validateAnswerAdvanced\<close>, one case per \<^verbatim>\<open>return\<close> of the source.\<close>

lemma validateAnswerAdvanced_cases
  [case_names EMPTY EXACT SUBSTRING FUZZY JACCARD SEMANTIC REJECTED]:
  fixes g a d :: string and reply :: judge_reply
  defines "ng \<equiv> trim (toLowerCase g)" and "na \<equiv> trim (toLowerCase a)"
  defines "fz \<equiv> fuzzyMatchScore ng na"
    and "jc \<equiv> jaccardSimilarity (tokenizeAndNormalize ng) (tokenizeAndNormalize na)"
  obtains
    "ng = []"
    "validateAnswerAdvanced g a d reply =
       \<lparr>isValid = False, confidence = Num 0, reasoning = ''Empty guess'', strategy = ''EMPTY''\<rparr>"
  | "ng \<noteq> []" "ng = na"
    "validateAnswerAdvanced g a d reply =
       \<lparr>isValid = True, confidence = Num 1, reasoning = ''Exact match'', strategy = ''EXACT''\<rparr>"
  | "ng \<noteq> []" "ng \<noteq> na"
    "validateAnswerAdvanced g a d reply =
       \<lparr>isValid = True,
        confidence = js_div (min (length ng) (length na)) (max (length ng) (length na)),
        reasoning = ''Strong substring match'', strategy = ''SUBSTRING''\<rparr>"
  | "ng \<noteq> []" "ng \<noteq> na"
    "validateAnswerAdvanced g a d reply =
       \<lparr>isValid = True, confidence = fz, reasoning = ''High fuzzy match score'',
        strategy = ''FUZZY''\<rparr>"
  | "ng \<noteq> []" "ng \<noteq> na" "js_ge jc (95 / 100)"
    "validateAnswerAdvanced g a d reply =
       \<lparr>isValid = True, confidence = jc, reasoning = ''Exact word overlap match'',
        strategy = ''JACCARD''\<rparr>"
  | c r where "ng \<noteq> []" "ng \<noteq> na" "reply = JudgeResult True (Some c) r" "85 / 100 \<le> c"
    "validateAnswerAdvanced g a d reply =
       \<lparr>isValid = True, confidence = Num c, reasoning = str_or r ''Gemini validation'',
        strategy = ''GEMINI_SEMANTIC''\<rparr>"
  | "ng \<noteq> []" "ng \<noteq> na"
    "validateAnswerAdvanced g a d reply =
       \<lparr>isValid = False, confidence = Math_max fz jc,
        reasoning = ''Guess does not match answer'', strategy = ''REJECTED''\<rparr>"
proof (cases "ng = []")
  case True
  then show ?thesis
    using that(1) by (simp add: validateAnswerAdvanced_def ng_def)
next
  case ne: False
  show ?thesis
  proof (cases "ng = na")
    case True
    then show ?thesis
      using that(2) ne by (simp add: validateAnswerAdvanced_def ng_def na_def)
  next
    case neq: False
    let ?ratio = "js_div (min (length ng) (length na)) (max (length ng) (length na))"
    show ?thesis
    proof (cases "(str_includes ng na \<or> str_includes na ng) \<and> js_ge ?ratio (7 / 10)")
      case True
      then show ?thesis
        using that(3) ne neq
        by (simp add: validateAnswerAdvanced_def ng_def na_def Let_def)
    next
      case nsub: False
      show ?thesis
      proof (cases "js_ge fz (95 / 100)")
        case True
        then show ?thesis
          using that(4) ne neq nsub
          by (simp add: validateAnswerAdvanced_def ng_def na_def fz_def Let_def)
      next
        case nfz: False
        let ?tcm = "js_div (min (length (tokenizeAndNormalize ng)) (length (tokenizeAndNormalize na)))
                     (max (length (tokenizeAndNormalize ng)) (length (tokenizeAndNormalize na)))"
        show ?thesis
        proof (cases "js_ge jc (95 / 100) \<and> js_ge ?tcm (6 / 10)")
          case True
          then show ?thesis
            using that(5) ne neq nsub nfz
            by (simp add: validateAnswerAdvanced_def ng_def na_def fz_def jc_def Let_def)
        next
          case njc: False
          have rej: "(\<And>c r. reply = JudgeResult True c r \<Longrightarrow> \<not> 85 / 100 \<le> num_or c 0) \<Longrightarrow>
            validateAnswerAdvanced g a d reply =
              \<lparr>isValid = False, confidence = Math_max fz jc,
               reasoning = ''Guess does not match answer'', strategy = ''REJECTED''\<rparr>"
            using ne neq nsub nfz njc
            by (simp add: validateAnswerAdvanced_def ng_def na_def fz_def jc_def Let_def
                  split: judge_reply.split bool.split)
          show ?thesis
          proof (cases "\<exists>c r. reply = JudgeResult True c r \<and> 85 / 100 \<le> num_or c 0")
            case True
            then obtain c r where rep: "reply = JudgeResult True c r"
              and hi: "85 / 100 \<le> num_or c 0" by blast
            from hi obtain q where c: "c = Some q" and q: "85 / 100 \<le> q"
              by (cases c) (auto simp: num_or_def split: if_splits)
            have "num_or c (1 / 2) = q"
              using c q by (auto simp: num_or_def)
            then show ?thesis
              using that(6) [of q r] ne neq nsub nfz njc rep hi c q
              by (simp add: validateAnswerAdvanced_def ng_def na_def fz_def jc_def Let_def)
          next
            case False
            then show ?thesis using that(7) ne neq rej by blast
          qed
        qed
      qed
    qed
  qed
qed

subsection \<open>One guess submission\<close>

lemmas handler_defs =
  handleGuess_def handleGuess_begin_def handleGuess_resume_def handleGuess_dispatches_def
  handleGuessChange_def dispatch_all_def MAX_ATTEMPTS_def BLUR_DECREMENT_def
  SCORE_DECREMENT_def Let_def

lemma handleGuess_inactive: "\<not> active s \<Longrightarrow> handleGuess s r c a = s"
  by (auto simp: handler_defs active_def)

lemma handleGuess_rejected:
  assumes "active s"
    and "\<not> isValid (validateAnswerAdvanced (guess s) (label s) (desc s) r)"
  shows "attempts (handleGuess s r c a) = attempts s + 1"
    and "score (handleGuess s r c a) =
           (if attempts s + 1 \<ge> MAX_ATTEMPTS then 0 else max 0 (score s - SCORE_DECREMENT))"
    and "blur (handleGuess s r c a) =
           (if attempts s + 1 \<ge> MAX_ATTEMPTS then 0 else max 0 (blur s - BLUR_DECREMENT))"
    and "revealed (handleGuess s r c a) = (attempts s + 1 \<ge> MAX_ATTEMPTS)"
  using assms by (simp_all add: handler_defs active_def split: option.split)

lemma play_inactive:
  "\<not> active s \<Longrightarrow> play s (Submission g r c a) = s\<lparr>guess := g\<rparr>"
  by (auto simp: handler_defs active_def)

lemma play_rejected:
  assumes "active s" and "\<not> isValid (verdict_of s sub)"
  shows "attempts (play s sub) = attempts s + 1"
    and "score (play s sub) = (if attempts s + 1 \<ge> 5 then 0 else max 0 (score s - 15))"
    and "blur (play s sub) = (if attempts s + 1 \<ge> 5 then 0 else max 0 (blur s - 4))"
    and "revealed (play s sub) = (attempts s + 1 \<ge> 5)"
    and "loading (play s sub) = False"
    and "hintLevel (play s sub) =
           (if attempts s + 1 \<ge> 5 then hintLevel s else min (hintLevel s + 1) 4)"
    and "label (play s sub) = label s"
    and "desc (play s sub) = desc s"
    and "highScore (play s sub) = highScore s"
  using assms by (cases sub; simp add: handler_defs active_def split: option.split)+

lemma play_accepted:
  assumes "active s" and "isValid (verdict_of s sub)"
  shows "attempts (play s sub) = attempts s"
    and "score (play s sub) = score s"
    and "blur (play s sub) = 0"
    and "revealed (play s sub) = True"
    and "loading (play s sub) = False"
    and "hintLevel (play s sub) = hintLevel s"
    and "label (play s sub) = label s"
    and "desc (play s sub) = desc s"
    and "highScore (play s sub) = max (score s) (highScore s)"
  using assms by (cases sub; simp add: handler_defs active_def split: option.split)+




lemma handleGuess_resume_revealed:
  "revealed store \<Longrightarrow> revealed (handleGuess_resume snap r c a store)"
  by (simp add: handler_defs split: option.split)

lemma handleGuess_resume_rejected:
  assumes "\<not> isValid (validateAnswerAdvanced (guess snap) (label snap) (desc snap) r)"
  shows "attempts (handleGuess_resume snap r c a store) = attempts store + 1"
    and "blur (handleGuess_resume snap r c a store) =
           (if attempts snap + 1 \<ge> MAX_ATTEMPTS then 0 else max 0 (blur snap - BLUR_DECREMENT))"
  using assms by (simp_all add: handler_defs split: option.split)

lemma handleGuess_resume_answer:
  "label (handleGuess_resume snap r c a store) = label store"
  "desc (handleGuess_resume snap r c a store) = desc store"
  by (simp_all add: handler_defs split: option.split)

lemma handleGuess_answer:
  "label (handleGuess s r c a) = label s"
  "desc (handleGuess s r c a) = desc s"
  by (simp_all add: handler_defs split: option.split)

subsection \<open>The states of a round\<close>

lemma loadNewImage_fields:
  "score (loadNewImage t img h) = 100"
  "blur (loadNewImage t img h) = 20"
  "attempts (loadNewImage t img h) = 0"
  "hintLevel (loadNewImage t img h) = 0"
  "revealed (loadNewImage t img h) = False"
  "loading (loadNewImage t img h) = False"
  "label (loadNewImage t img h) = desc (loadNewImage t img h)"
  "highScore (loadNewImage t img h) = highScore t"
  by (simp_all add: loadNewImage_def loadNewImage_dispatches_def dispatch_all_def
        split: image_result.split option.split)

lemma loadNewImage_answer:
  "label (loadNewImage t (ImageData url d) h) = d"
  "desc (loadNewImage t (ImageData url d) h) = d"
  "label (loadNewImage t ImageFailed h) = []"
  "desc (loadNewImage t ImageFailed h) = []"
  by (simp_all add: loadNewImage_def loadNewImage_dispatches_def dispatch_all_def
        split: option.split)

lemma play_cases [case_names inactive rejected accepted]:
  obtains
    "\<not> active s" "\<not> accepted s sub"
    "attempts (play s sub) = attempts s" "score (play s sub) = score s"
    "blur (play s sub) = blur s" "revealed (play s sub) = revealed s"
    "loading (play s sub) = loading s" "hintLevel (play s sub) = hintLevel s"
    "label (play s sub) = label s" "desc (play s sub) = desc s"
  | "active s" "\<not> accepted s sub"
    "attempts (play s sub) = attempts s + 1"
    "score (play s sub) = (if attempts s + 1 \<ge> 5 then 0 else max 0 (score s - 15))"
    "blur (play s sub) = (if attempts s + 1 \<ge> 5 then 0 else max 0 (blur s - 4))"
    "revealed (play s sub) = (attempts s + 1 \<ge> 5)"
    "loading (play s sub) = False"
    "hintLevel (play s sub) = (if attempts s + 1 \<ge> 5 then hintLevel s else min (hintLevel s + 1) 4)"
    "label (play s sub) = label s" "desc (play s sub) = desc s"
  | "active s" "accepted s sub"
    "attempts (play s sub) = attempts s" "score (play s sub) = score s"
    "blur (play s sub) = 0" "revealed (play s sub) = True"
    "loading (play s sub) = False" "hintLevel (play s sub) = hintLevel s"
    "label (play s sub) = label s" "desc (play s sub) = desc s"
proof (cases "active s")
  case False
  obtain g r c a where sub: "sub = Submission g r c a" by (cases sub)
  have "play s sub = s\<lparr>guess := g\<rparr>"
    unfolding sub using False by (rule play_inactive)
  with False that(1) show ?thesis by (simp add: accepted_def)
next
  case act: True
  show ?thesis
  proof (cases "isValid (verdict_of s sub)")
    case True
    with act that(3) play_accepted [OF act True] show ?thesis
      by (simp add: accepted_def)
  next
    case False
    with act that(2) play_rejected [OF act False] show ?thesis
      by (simp add: accepted_def)
  qed
qed

lemma round_reach_invariant:
  assumes "round_reach s acc"
  shows "0 \<le> score s \<and> score s \<le> 100 \<and> 0 \<le> blur s \<and> blur s \<le> 20
     \<and> hintLevel s \<le> attempts s \<and> attempts s \<le> 5 \<and> \<not> loading s
     \<and> (revealed s \<longleftrightarrow> attempts s = 5 \<or> acc) \<and> label s = desc s"
  using assms
proof (induction rule: round_reach.induct)
  case (loaded store imageData firstHint)
  show ?case by (simp add: loadNewImage_fields)
next
  case (played state acc sub)
  show ?case
  proof (cases rule: play_cases [of state sub])
    case inactive
    with played.IH show ?thesis by simp
  next
    case rejected
    with played.IH show ?thesis by (auto simp: active_def)
  next
    case accepted
    with played.IH show ?thesis by (auto simp: active_def)
  qed
qed


section \<open>Properties of the match engine and of the round\<close>

text \<open>
  C10. \<^verbatim>\<open>RESET_GAME\<close>, the first dispatch of \<^verbatim>\<open>loadNewImage\<close> (skip and next), keeps the
  field \<open>highScore\<close> and puts every other field of the game state back to its initial
  value: score 100, attempts 0, blur 20, hint level 0, no previous hints, not revealed,
  loading, and empty label, description, guess and image URL.
\<close>

theorem reset_game_keeps_only_highScore:
  "gameReducer state RESET_GAME = initialState\<lparr>highScore := highScore state\<rparr>
   \<and> highScore (gameReducer state RESET_GAME) = highScore state
   \<and> score (gameReducer state RESET_GAME) = 100
   \<and> attempts (gameReducer state RESET_GAME) = 0
   \<and> blur (gameReducer state RESET_GAME) = 20
   \<and> hintLevel (gameReducer state RESET_GAME) = 0
   \<and> previousHints (gameReducer state RESET_GAME) = []
   \<and> revealed (gameReducer state RESET_GAME) = False
   \<and> loading (gameReducer state RESET_GAME) = True
   \<and> label (gameReducer state RESET_GAME) = []
   \<and> desc (gameReducer state RESET_GAME) = []
   \<and> guess (gameReducer state RESET_GAME) = []
   \<and> imageUrl (gameReducer state RESET_GAME) = []
   \<and> hint (gameReducer state RESET_GAME) = hint initialState
   \<and> hd (loadNewImage_dispatches imageData firstHint) = RESET_GAME"
  by (simp add: initialState_def loadNewImage_dispatches_def split: image_result.split)





text \<open>
  C3, as the code has it. For every guess, answer, description and judge reply:
  \<^item> a verdict of the stages \<^verbatim>\<open>EMPTY\<close>, \<^verbatim>\<open>EXACT\<close>, \<^verbatim>\<open>SUBSTRING\<close>, \<^verbatim>\<open>FUZZY\<close> and
    \<^verbatim>\<open>JACCARD\<close> has a confidence between 0 and 1;
  \<^item> on the final rejection the confidence is \<^verbatim>\<open>Math.max(fuzzyScore, jaccardScore)\<close>,
    and it is between 0 and 1 when the guess or the answer has a word token;
  \<^item> on the semantic stage the confidence is the number the judge reported, which is
    at least 0.85; the engine puts no upper bound on it.
\<close>

theorem confidence_range:
  "(strategy (validateAnswerAdvanced g a d reply)
      \<in> {''EMPTY'', ''EXACT'', ''SUBSTRING'', ''FUZZY'', ''JACCARD''}
    \<longrightarrow> unit_interval (confidence (validateAnswerAdvanced g a d reply)))
   \<and> (strategy (validateAnswerAdvanced g a d reply) = ''REJECTED''
    \<longrightarrow> confidence (validateAnswerAdvanced g a d reply) =
          Math_max (fuzzyMatchScore (trim (toLowerCase g)) (trim (toLowerCase a)))
            (jaccardSimilarity (tokenizeAndNormalize (trim (toLowerCase g)))
               (tokenizeAndNormalize (trim (toLowerCase a))))
        \<and> (tokenizeAndNormalize (trim (toLowerCase g)) \<noteq> [] \<or>
           tokenizeAndNormalize (trim (toLowerCase a)) \<noteq> []
           \<longrightarrow> unit_interval (confidence (validateAnswerAdvanced g a d reply))))
   \<and> (strategy (validateAnswerAdvanced g a d reply) = ''GEMINI_SEMANTIC''
    \<longrightarrow> (\<exists>c r. reply = JudgeResult True (Some c) r \<and> 85 / 100 \<le> c
              \<and> confidence (validateAnswerAdvanced g a d reply) = Num c))"
proof (cases rule: validateAnswerAdvanced_cases [of g a d reply])
  case EMPTY
  then show ?thesis by simp
next
  case EXACT
  then show ?thesis by simp
next
  case SUBSTRING
  have "unit_interval
      (js_div (min (length (trim (toLowerCase g))) (length (trim (toLowerCase a))))
         (max (length (trim (toLowerCase g))) (length (trim (toLowerCase a)))))"
    using SUBSTRING(1) by (intro js_div_unit_interval) auto
  with SUBSTRING show ?thesis by simp
next
  case FUZZY
  then show ?thesis by (simp add: fuzzyMatchScore_unit_interval)
next
  case JACCARD
  from JACCARD(3) have "jaccardSimilarity (tokenizeAndNormalize (trim (toLowerCase g)))
      (tokenizeAndNormalize (trim (toLowerCase a))) \<noteq> NaN"
    by (rule js_ge_Num)
  then have "unit_interval (jaccardSimilarity (tokenizeAndNormalize (trim (toLowerCase g)))
      (tokenizeAndNormalize (trim (toLowerCase a))))"
    using jaccardSimilarity_NaN_or_unit by blast
  with JACCARD show ?thesis by simp
next
  case (SEMANTIC c r)
  then show ?thesis by simp
next
  case REJECTED
  have "unit_interval (Math_max (fuzzyMatchScore (trim (toLowerCase g)) (trim (toLowerCase a)))
            (jaccardSimilarity (tokenizeAndNormalize (trim (toLowerCase g)))
               (tokenizeAndNormalize (trim (toLowerCase a)))))"
    if "tokenizeAndNormalize (trim (toLowerCase g)) \<noteq> [] \<or>
        tokenizeAndNormalize (trim (toLowerCase a)) \<noteq> []"
    using that
    by (intro Math_max_unit_interval fuzzyMatchScore_unit_interval
          jaccardSimilarity_unit_interval)
  with REJECTED show ?thesis by simp
qed

text \<open>One instance per stage: a substring match, a final rejection, and an accepted
  judgment.\<close>

theorem confidence_range_witness:
  "strategy (validateAnswerAdvanced ''Sunset!!'' ''sunset'' ''a sunset'' JudgeFailed)
      = ''SUBSTRING''
   \<and> unit_interval
       (confidence (validateAnswerAdvanced ''Sunset!!'' ''sunset'' ''a sunset'' JudgeFailed))
   \<and> strategy (validateAnswerAdvanced ''dog'' ''golden retriever'' ''a dog'' JudgeFailed)
      = ''REJECTED''
   \<and> tokenizeAndNormalize (trim (toLowerCase ''dog'')) \<noteq> []
   \<and> unit_interval
       (confidence (validateAnswerAdvanced ''dog'' ''golden retriever'' ''a dog'' JudgeFailed))
   \<and> strategy (validateAnswerAdvanced ''dog'' ''golden retriever'' ''a dog''
                 (JudgeResult True (Some (9 / 10)) None)) = ''GEMINI_SEMANTIC''
   \<and> confidence (validateAnswerAdvanced ''dog'' ''golden retriever'' ''a dog''
                 (JudgeResult True (Some (9 / 10)) None)) = Num (9 / 10)"
proof -
  have s1: "strategy (validateAnswerAdvanced ''Sunset!!'' ''sunset'' ''a sunset'' JudgeFailed)
      = ''SUBSTRING''"
    by code_simp
  have s2: "strategy (validateAnswerAdvanced ''dog'' ''golden retriever'' ''a dog'' JudgeFailed)
      = ''REJECTED''"
    by code_simp
  have t2: "tokenizeAndNormalize (trim (toLowerCase ''dog'')) \<noteq> []"
    by code_simp
  have s3: "strategy (validateAnswerAdvanced ''dog'' ''golden retriever'' ''a dog''
                 (JudgeResult True (Some (9 / 10)) None)) = ''GEMINI_SEMANTIC''"
    by code_simp
  have u1: "unit_interval
       (confidence (validateAnswerAdvanced ''Sunset!!'' ''sunset'' ''a sunset'' JudgeFailed))"
    using confidence_range [of "''Sunset!!''" "''sunset''" "''a sunset''" JudgeFailed] s1
    by simp
  have u2: "unit_interval
       (confidence (validateAnswerAdvanced ''dog'' ''golden retriever'' ''a dog'' JudgeFailed))"
    using confidence_range [of "''dog''" "''golden retriever''" "''a dog''" JudgeFailed] s2 t2
    by blast
  have u3: "confidence (validateAnswerAdvanced ''dog'' ''golden retriever'' ''a dog''
                 (JudgeResult True (Some (9 / 10)) None)) = Num (9 / 10)"
    using confidence_range [of "''dog''" "''golden retriever''" "''a dog''"
        "JudgeResult True (Some (9 / 10)) None"] s3
    by auto
  from s1 s2 t2 s3 u1 u2 u3 show ?thesis by blast
qed

text \<open>A judge that reports the confidence 2: the verdict carries it.\<close>

theorem confidence_range_counterexample:
  "strategy (validateAnswerAdvanced ''dog'' ''golden retriever'' ''a dog''
              (JudgeResult True (Some 2) None)) = ''GEMINI_SEMANTIC''
   \<and> confidence (validateAnswerAdvanced ''dog'' ''golden retriever'' ''a dog''
              (JudgeResult True (Some 2) None)) = Num 2
   \<and> \<not> unit_interval (confidence (validateAnswerAdvanced ''dog'' ''golden retriever'' ''a dog''
              (JudgeResult True (Some 2) None)))"
  by code_simp

text \<open>
  C4, evaluated. \<^verbatim>\<open>jaccardSimilarity\<close> divides the size of the intersection by the size
  of the union without a test: on two empty token lists the quotient is 0/0, which is
  \<open>NaN\<close>, not 0. The engine reaches it for the guess \<^verbatim>\<open>!!\<close> and the answer \<^verbatim>\<open>??\<close>,
  whose token lists are both empty, and the rejected verdict then has the confidence
  \<open>NaN\<close>.
\<close>

theorem jaccard_of_empty_token_lists:
  "jaccardSimilarity [] [] = NaN
   \<and> tokenizeAndNormalize (trim (toLowerCase ''!!'')) = []
   \<and> tokenizeAndNormalize (trim (toLowerCase ''??'')) = []
   \<and> confidence (validateAnswerAdvanced ''!!'' ''??'' ''two marks'' JudgeFailed) = NaN"
  by code_simp

text \<open>
  C1, as the code has it. A guess that is empty after trimming is not ignored in an
  \<open>ACTIVE\<close> round. The match engine rejects it (not valid, strategy \<^verbatim>\<open>EMPTY\<close>,
  confidence 0, whatever the answer, the description and the judge), and
  \<^verbatim>\<open>handleGuess\<close> treats it as any rejected guess: \<open>attempts\<close> becomes \<open>attempts + 1\<close>,
  \<open>score\<close> becomes \<open>max 0 (score - 15)\<close> and \<open>blur\<close> becomes \<open>max 0 (blur - 4)\<close>, both
  forced to 0 when this was the last attempt. The handler leaves the state as it is
  when the round is revealed or loading.
\<close>

theorem empty_guess_is_a_wrong_guess:
  "(active s \<and> trim (guess s) = [] \<longrightarrow>
      validateAnswerAdvanced (guess s) (label s) (desc s) reply =
        \<lparr>isValid = False, confidence = Num 0, reasoning = ''Empty guess'',
         strategy = ''EMPTY''\<rparr>
      \<and> attempts (handleGuess s reply c a) = attempts s + 1
      \<and> score (handleGuess s reply c a) =
          (if attempts s + 1 \<ge> MAX_ATTEMPTS then 0 else max 0 (score s - SCORE_DECREMENT))
      \<and> blur (handleGuess s reply c a) =
          (if attempts s + 1 \<ge> MAX_ATTEMPTS then 0 else max 0 (blur s - BLUR_DECREMENT))
      \<and> handleGuess s reply c a \<noteq> s)
   \<and> (\<not> active s \<longrightarrow> handleGuess s reply c a = s)"
proof (intro conjI impI)
  assume h: "active s \<and> trim (guess s) = []"
  then have v: "validateAnswerAdvanced (guess s) (label s) (desc s) reply =
        \<lparr>isValid = False, confidence = Num 0, reasoning = ''Empty guess'',
         strategy = ''EMPTY''\<rparr>"
    by (simp add: validateAnswerAdvanced_def trim_toLowerCase_Nil_iff)
  then show "validateAnswerAdvanced (guess s) (label s) (desc s) reply =
        \<lparr>isValid = False, confidence = Num 0, reasoning = ''Empty guess'',
         strategy = ''EMPTY''\<rparr>" .
  from v have rej: "\<not> isValid (validateAnswerAdvanced (guess s) (label s) (desc s) reply)"
    by simp
  from h have act: "active s" by simp
  show att: "attempts (handleGuess s reply c a) = attempts s + 1"
    by (rule handleGuess_rejected(1) [OF act rej])
  show "score (handleGuess s reply c a) =
          (if attempts s + 1 \<ge> MAX_ATTEMPTS then 0 else max 0 (score s - SCORE_DECREMENT))"
    by (rule handleGuess_rejected(2) [OF act rej])
  show "blur (handleGuess s reply c a) =
          (if attempts s + 1 \<ge> MAX_ATTEMPTS then 0 else max 0 (blur s - BLUR_DECREMENT))"
    by (rule handleGuess_rejected(3) [OF act rej])
  show "handleGuess s reply c a \<noteq> s"
    using att by (metis n_not_Suc_n Suc_eq_plus1)
next
  assume "\<not> active s"
  then show "handleGuess s reply c a = s" by (rule handleGuess_inactive)
qed

text \<open>An instance: two spaces typed into the freshly loaded round; and the initial
  state, which is loading.\<close>

theorem empty_guess_witness:
  "active (handleGuessChange lighthouse_round ''  '')
   \<and> trim (guess (handleGuessChange lighthouse_round ''  '')) = []
   \<and> attempts (handleGuess (handleGuessChange lighthouse_round ''  '') JudgeFailed
        ''Getting closer to the answer...'' None) = 1
   \<and> \<not> active initialState
   \<and> handleGuess initialState JudgeFailed ''Getting closer to the answer...'' None
       = initialState"
proof -
  let ?s = "handleGuessChange lighthouse_round ''  ''"
  have a: "active ?s" by code_simp
  have t: "trim (guess ?s) = []" by code_simp
  have z: "attempts ?s = 0" by code_simp
  have n: "\<not> active initialState" by code_simp
  have "attempts (handleGuess ?s JudgeFailed ''Getting closer to the answer...'' None)
        = attempts ?s + 1"
    using empty_guess_is_a_wrong_guess
      [of ?s JudgeFailed "''Getting closer to the answer...''" None] a t
    by blast
  moreover have "handleGuess initialState JudgeFailed ''Getting closer to the answer...'' None
       = initialState"
    using empty_guess_is_a_wrong_guess
      [of initialState JudgeFailed "''Getting closer to the answer...''" None] n
    by blast
  ultimately show ?thesis using a t z n by simp
qed

text \<open>Two spaces submitted in the freshly loaded round: the attempt is counted, 15
  points and 4 units of blur are lost, and a hint is issued.\<close>

theorem empty_guess_counterexample:
  "active (handleGuessChange lighthouse_round ''  '')
   \<and> trim (guess (handleGuessChange lighthouse_round ''  '')) = []
   \<and> attempts (handleGuessChange lighthouse_round ''  '') = 0
   \<and> attempts (handleGuess (handleGuessChange lighthouse_round ''  '') JudgeFailed
        ''Getting closer to the answer...'' None) = 1
   \<and> score (handleGuessChange lighthouse_round ''  '') = 100
   \<and> score (handleGuess (handleGuessChange lighthouse_round ''  '') JudgeFailed
        ''Getting closer to the answer...'' None) = 85
   \<and> blur (handleGuessChange lighthouse_round ''  '') = 20
   \<and> blur (handleGuess (handleGuessChange lighthouse_round ''  '') JudgeFailed
        ''Getting closer to the answer...'' None) = 16
   \<and> hintLevel (handleGuess (handleGuessChange lighthouse_round ''  '') JudgeFailed
        ''Getting closer to the answer...'' None) = 1
   \<and> previousHints (handleGuess (handleGuessChange lighthouse_round ''  '') JudgeFailed
        ''Getting closer to the answer...'' None) = [''> It guides ships'']"
  by code_simp





text \<open>
  C9. \<^verbatim>\<open>loadNewImage\<close> sets the label and the description to the same string, the
  description of the image (both stay empty when the image cannot be fetched). Neither
  \<^verbatim>\<open>handleGuess\<close>, on time or late, nor \<^verbatim>\<open>handleGuessChange\<close> changes one of the two
  fields, and the reducer changes them on no action but \<^verbatim>\<open>RESET_GAME\<close>, \<^verbatim>\<open>SET_LABEL\<close>
  and \<^verbatim>\<open>SET_DESC\<close>, which only \<^verbatim>\<open>loadNewImage\<close> dispatches. So the label equals the
  description in every state of a round.
\<close>

theorem label_is_description:
  "label (loadNewImage t (ImageData url d) h) = d
   \<and> desc (loadNewImage t (ImageData url d) h) = d
   \<and> label (loadNewImage t ImageFailed h) = []
   \<and> desc (loadNewImage t ImageFailed h) = []
   \<and> label (handleGuess s r c a) = label s
   \<and> desc (handleGuess s r c a) = desc s
   \<and> label (handleGuess_resume snap r c a s) = label s
   \<and> desc (handleGuess_resume snap r c a s) = desc s
   \<and> label (handleGuessChange s g) = label s
   \<and> desc (handleGuessChange s g) = desc s
   \<and> (case act of
         RESET_GAME \<Rightarrow> True
       | SET_LABEL payload \<Rightarrow> True
       | SET_DESC payload \<Rightarrow> True
       | _ \<Rightarrow> label (gameReducer s act) = label s \<and> desc (gameReducer s act) = desc s)
   \<and> (round_reach s acc \<longrightarrow> label s = desc s)"
  using round_reach_invariant [of s acc]
  by (simp add: loadNewImage_answer handleGuess_answer handleGuess_resume_answer
        handleGuessChange_def split: game_action.split)

text \<open>The round for \<^verbatim>\<open>lighthouse\<close>, at its creation and after a wrong guess.\<close>

theorem label_is_description_witness:
  "round_reach (play lighthouse_round boat_guess) (accepted lighthouse_round boat_guess)
   \<and> label (play lighthouse_round boat_guess) = desc (play lighthouse_round boat_guess)
   \<and> label lighthouse_round = ''lighthouse''
   \<and> desc lighthouse_round = ''lighthouse''"
proof -
  have start: "round_reach lighthouse_round False"
    unfolding lighthouse_round_def by (rule round_reach.loaded)
  have r1: "round_reach (play lighthouse_round boat_guess)
      (accepted lighthouse_round boat_guess)"
    using round_reach.played [OF start, of boat_guess] by simp
  have "label (play lighthouse_round boat_guess) = desc (play lighthouse_round boat_guess)"
    using label_is_description
      [of initialState "''lighthouse.jpg''" "''lighthouse''" "Some ''It guides ships''"
          "play lighthouse_round boat_guess" JudgeFailed "[]" None lighthouse_round "[]"
          INCREMENT_ATTEMPTS "accepted lighthouse_round boat_guess"] r1
    by blast
  moreover have "label lighthouse_round = ''lighthouse'' \<and> desc lighthouse_round = ''lighthouse''"
    using label_is_description
      [of initialState "''lighthouse.jpg''" "''lighthouse''" "Some ''It guides ships''"
          lighthouse_round JudgeFailed "[]" None lighthouse_round "[]"
          INCREMENT_ATTEMPTS False]
    by (simp add: lighthouse_round_def)
  ultimately show ?thesis using r1 by blast
qed

text \<open>
  C8, as the code has it. \<^verbatim>\<open>handleGuess\<close> has no guard for an evaluation in progress.
  It lets a submission through whenever the round is neither revealed nor loading; the
  part before the wait changes only the hint, so a second submission made while the
  first evaluation is pending is let through as well, and each of the two evaluations
  later applies its dispatches to the store. A submission is ignored only when the
  round is revealed or loading. Every rejected evaluation, whatever its snapshot, adds 1
  to the \<open>attempts\<close> of the store and overwrites \<open>blur\<close> from its snapshot. No
  evaluation result, however late, turns \<open>revealed\<close> back to false.
\<close>

theorem no_single_flight_guard:
  "(active s \<longrightarrow>
      handleGuess_begin s = (gameReducer s (SET_HINT ''> Validating answer...''), Some s)
      \<and> handleGuess_begin (fst (handleGuess_begin s)) =
          (fst (handleGuess_begin s), Some (fst (handleGuess_begin s))))
   \<and> (\<not> active s \<longrightarrow> handleGuess_begin s = (s, None))
   \<and> (\<not> isValid (validateAnswerAdvanced (guess snap) (label snap) (desc snap) r) \<longrightarrow>
        attempts (handleGuess_resume snap r c a store) = attempts store + 1
        \<and> blur (handleGuess_resume snap r c a store) =
            (if attempts snap + 1 \<ge> MAX_ATTEMPTS then 0
             else max 0 (blur snap - BLUR_DECREMENT)))
   \<and> (revealed store \<longrightarrow> revealed (handleGuess_resume snap r c a store))"
  by (auto simp: handleGuess_begin_def active_def handleGuess_resume_revealed
        handleGuess_resume_rejected)

text \<open>A second submission at the fifth attempt; a submission while loading; and a late
  wrong verdict arriving on a round that the right guess has revealed.\<close>

theorem no_single_flight_guard_witness:
  "active last_attempt_round
   \<and> snd (handleGuess_begin (fst (handleGuess_begin last_attempt_round)))
       = Some (fst (handleGuess_begin last_attempt_round))
   \<and> \<not> active initialState
   \<and> handleGuess_begin initialState = (initialState, None)
   \<and> \<not> isValid (validateAnswerAdvanced (guess last_attempt_round) (label last_attempt_round)
          (desc last_attempt_round) JudgeFailed)
   \<and> revealed (play lighthouse_round lighthouse_guess)
   \<and> attempts (handleGuess_resume last_attempt_round JudgeFailed
        ''Getting closer to the answer...'' None (play lighthouse_round lighthouse_guess)) = 1
   \<and> revealed (handleGuess_resume last_attempt_round JudgeFailed
        ''Getting closer to the answer...'' None (play lighthouse_round lighthouse_guess))"
proof -
  let ?late = "play lighthouse_round lighthouse_guess"
  have act: "active last_attempt_round" by code_simp
  have nact: "\<not> active initialState" by code_simp
  have rej: "\<not> isValid (validateAnswerAdvanced (guess last_attempt_round)
      (label last_attempt_round) (desc last_attempt_round) JudgeFailed)"
    by code_simp
  have rev: "revealed ?late" by code_simp
  have a0: "attempts ?late = 0" by code_simp
  note t1 = no_single_flight_guard
    [of last_attempt_round last_attempt_round JudgeFailed
        "''Getting closer to the answer...''" None ?late]
  note t2 = no_single_flight_guard
    [of initialState last_attempt_round JudgeFailed
        "''Getting closer to the answer...''" None ?late]
  have "handleGuess_begin (fst (handleGuess_begin last_attempt_round))
       = (fst (handleGuess_begin last_attempt_round),
          Some (fst (handleGuess_begin last_attempt_round)))"
    using t1 act by blast
  then have "snd (handleGuess_begin (fst (handleGuess_begin last_attempt_round)))
       = Some (fst (handleGuess_begin last_attempt_round))"
    by simp
  moreover have "handleGuess_begin initialState = (initialState, None)"
    using t2 nact by blast
  moreover have "attempts (handleGuess_resume last_attempt_round JudgeFailed
        ''Getting closer to the answer...'' None ?late) = 1"
    using t1 rej a0 by simp
  moreover have "revealed (handleGuess_resume last_attempt_round JudgeFailed
        ''Getting closer to the answer...'' None ?late)"
    using t1 rev by blast
  ultimately show ?thesis using act nact rej rev by blast
qed

text \<open>Two wrong guesses submitted one after the other at the fifth attempt, before the
  first verdict arrives: both are evaluated, and \<open>attempts\<close> ends at 6.\<close>

theorem racing_wrong_guesses_counterexample:
  "active last_attempt_round
   \<and> attempts last_attempt_round = 4
   \<and> snd (handleGuess_begin last_attempt_round) = Some last_attempt_round
   \<and> snd (handleGuess_begin (fst (handleGuess_begin last_attempt_round)))
       = Some (fst (handleGuess_begin last_attempt_round))
   \<and> attempts
       (handleGuess_resume (fst (handleGuess_begin last_attempt_round)) JudgeFailed
          ''Getting closer to the answer...'' None
          (handleGuess_resume last_attempt_round JudgeFailed
             ''Getting closer to the answer...'' None
             (fst (handleGuess_begin (fst (handleGuess_begin last_attempt_round)))))) = 6
   \<and> MAX_ATTEMPTS < 6"
  by code_simp

end
